theory Spec2Isabelle
  imports Complex_Main "HOL-Library.Multiset"
begin

section \<open>Incremental job sync (sync\_jobs.py): a shallow embedding\<close>

text \<open>
  The script is one linear pipeline: resolve the watermark from the destination
  (lines 37-80), fetch the delta from the source store (lines 82-124), normalise every
  row (lines 132-156), write the rows in batches (lines 168-201) and report
  (lines 203-210). Every \<^verbatim>\<open>raise\<close> of the script is a value \<open>Inl e\<close> of the model;
  the collaborators (the destination client, the query executor, the clock and the
  library parsers) are arguments of the functions that call them.
\<close>

subsection \<open>Errors\<close>

datatype error =
    ValueError
  | TypeError
  | KeyError
  | AttributeError
  | OverflowError
  | ZeroDivisionError
  | ExternalError string

subsection \<open>Instants: \<^verbatim>\<open>datetime\<close>, \<^verbatim>\<open>timedelta(days=1)\<close>, \<^verbatim>\<open>strftime\<close>, \<^verbatim>\<open>isoformat\<close>\<close>

text \<open>
  A \<^verbatim>\<open>datetime\<close> value: the civil fields, the microsecond and the UTC offset in
  minutes (\<open>None\<close> for a naive value).
\<close>

record datetime =
  year :: nat
  month :: nat
  day :: nat
  hour :: nat
  minute :: nat
  second :: nat
  microsecond :: nat
  tzinfo :: "int option"

definition is_leap :: "nat \<Rightarrow> bool" where
  "is_leap y = (y mod 4 = 0 \<and> (0 < y mod 100 \<or> y mod 400 = 0))"

definition days_in_month :: "nat \<Rightarrow> nat \<Rightarrow> nat" where
  "days_in_month y m =
     (if m = 2 then (if is_leap y then 29 else 28)
      else if m = 4 \<or> m = 6 \<or> m = 9 \<or> m = 11 then 30
      else 31)"

text \<open>
  \<^verbatim>\<open>dt + timedelta(days=1)\<close>: the next civil day at the same time of day.
  \<^verbatim>\<open>datetime\<close> has no year after 9999, and the addition raises OverflowError there.
\<close>

definition plus_one_day :: "datetime \<Rightarrow> error + datetime" where
  "plus_one_day dt =
     (if day dt < days_in_month (year dt) (month dt) then Inr (dt\<lparr>day := day dt + 1\<rparr>)
      else if month dt < 12 then Inr (dt\<lparr>month := month dt + 1, day := 1\<rparr>)
      else if year dt < 9999 then Inr (dt\<lparr>year := year dt + 1, month := 1, day := 1\<rparr>)
      else Inl OverflowError)"

definition digit :: "nat \<Rightarrow> char" where
  "digit n = ''0123456789'' ! (n mod 10)"

definition pad2 :: "nat \<Rightarrow> string" where
  "pad2 n = [digit (n div 10), digit n]"

definition pad4 :: "nat \<Rightarrow> string" where
  "pad4 n = [digit (n div 1000), digit (n div 100), digit (n div 10), digit n]"

definition pad6 :: "nat \<Rightarrow> string" where
  "pad6 n = [digit (n div 100000), digit (n div 10000), digit (n div 1000),
             digit (n div 100), digit (n div 10), digit n]"

text \<open>
  \<^verbatim>\<open>dt.strftime('%Y-%m-%d %H:%M:%S')\<close>. The microsecond and the offset are not
  printed. (Years are written with four digits, which is what every platform prints
  from the year 1000 on.)
\<close>

definition strftime :: "datetime \<Rightarrow> string" where
  "strftime dt =
     pad4 (year dt) @ ''-'' @ pad2 (month dt) @ ''-'' @ pad2 (day dt) @ '' '' @
     pad2 (hour dt) @ '':'' @ pad2 (minute dt) @ '':'' @ pad2 (second dt)"

definition offset_text :: "int \<Rightarrow> string" where
  "offset_text off =
     (if off < 0 then ''-'' else ''+'') @
     pad2 (nat \<bar>off\<bar> div 60) @ '':'' @ pad2 (nat \<bar>off\<bar> mod 60)"

text \<open>
  \<^verbatim>\<open>dt.isoformat()\<close>: the date, \<^verbatim>\<open>T\<close>, the time, the microsecond when it is not
  zero, the offset when the value has one.
\<close>

definition isoformat :: "datetime \<Rightarrow> string" where
  "isoformat dt =
     pad4 (year dt) @ ''-'' @ pad2 (month dt) @ ''-'' @ pad2 (day dt) @ ''T'' @
     pad2 (hour dt) @ '':'' @ pad2 (minute dt) @ '':'' @ pad2 (second dt) @
     (if microsecond dt = 0 then [] else ''.'' @ pad6 (microsecond dt)) @
     (case tzinfo dt of None \<Rightarrow> [] | Some off \<Rightarrow> offset_text off)"

subsection \<open>Watermark resolver (lines 37-80)\<close>

text \<open>
  The value under \<^verbatim>\<open>"upload_date"\<close> in the destination's answer: a string, a value
  that has \<^verbatim>\<open>isoformat\<close> (a datetime), or a value of another type, kept as the text
  that \<^verbatim>\<open>str\<close> gives for it.
\<close>

datatype upload_value = UStr string | UDatetime datetime | UOther string

type_synonym dest_row = "(string \<times> upload_value) list"

definition epoch_str :: string where
  "epoch_str = ''1970-01-01 00:00:00''"

text \<open>\<^verbatim>\<open>s.replace('Z', '+00:00')\<close>: every \<^verbatim>\<open>Z\<close> of the string is replaced.\<close>

definition replace_Z :: "string \<Rightarrow> string" where
  "replace_Z s = concat (map (\<lambda>c. if c = CHR ''Z'' then ''+00:00'' else [c]) s)"

text \<open>
  Lines 58-67. \<open>fromiso\<close> is \<^verbatim>\<open>datetime.fromisoformat\<close>, the library's parser, which
  raises ValueError on a text it does not accept.
\<close>

definition to_datetime :: "(string \<Rightarrow> error + datetime) \<Rightarrow> upload_value \<Rightarrow> error + datetime" where
  "to_datetime fromiso v =
     (case v of
        UStr s \<Rightarrow> (if CHR ''T'' \<in> set s then fromiso (replace_Z s) else fromiso s)
      | UDatetime dt \<Rightarrow> Inr dt
      | UOther s \<Rightarrow> fromiso s)"

text \<open>
  The body of the \<^verbatim>\<open>try\<close> (lines 39-74). \<open>response\<close> is what
  \<^verbatim>\<open>.execute()\<close> gives: an error, or \<^verbatim>\<open>response.data\<close>; \<open>now\<close> is
  \<^verbatim>\<open>datetime.now()\<close>. The result is the pair
  \<^verbatim>\<open>(max_upload_date_str, end_date_str)\<close>.
\<close>

definition resolve_try ::
  "(string \<Rightarrow> error + datetime) \<Rightarrow> datetime \<Rightarrow> error + dest_row list \<Rightarrow> error + string \<times> string" where
  "resolve_try fromiso now response =
     (case response of
        Inl e \<Rightarrow> Inl e
      | Inr [] \<Rightarrow> Inr (epoch_str, strftime now)
      | Inr (row # _) \<Rightarrow>
          (case map_of row ''upload_date'' of
             None \<Rightarrow> Inl KeyError
           | Some max_upload_date \<Rightarrow>
               (case to_datetime fromiso max_upload_date of
                  Inl e \<Rightarrow> Inl e
                | Inr max_upload_date_dt \<Rightarrow>
                    (case plus_one_day max_upload_date_dt of
                       Inl e \<Rightarrow> Inl e
                     | Inr end_date_dt \<Rightarrow>
                         Inr (strftime max_upload_date_dt, strftime end_date_dt)))))"

text \<open>The whole statement with its \<^verbatim>\<open>except Exception\<close> branch (lines 76-80).\<close>

definition resolve_watermark ::
  "(string \<Rightarrow> error + datetime) \<Rightarrow> datetime \<Rightarrow> error + dest_row list \<Rightarrow> string \<times> string" where
  "resolve_watermark fromiso now response =
     (case resolve_try fromiso now response of
        Inl e \<Rightarrow> (epoch_str, strftime now)
      | Inr bounds \<Rightarrow> bounds)"

subsection \<open>The library parser on the seconds-precision form\<close>

text \<open>
  \<^verbatim>\<open>datetime.fromisoformat\<close> on a text of the form \<^verbatim>\<open>YYYY-MM-DD?HH:MM:SS\<close> (any one
  character between the date and the time): the naive datetime with these fields, or
  ValueError when a field is not a number or is out of range. Other forms are answered
  with ValueError here; the resolver takes the parser as an argument, and this one is
  the instance the examples run on.
\<close>

definition digit_val :: "char \<Rightarrow> nat option" where
  "digit_val =
     map_of [(CHR ''0'', 0), (CHR ''1'', 1), (CHR ''2'', 2), (CHR ''3'', 3), (CHR ''4'', 4),
             (CHR ''5'', 5), (CHR ''6'', 6), (CHR ''7'', 7), (CHR ''8'', 8), (CHR ''9'', 9)]"

fun digits_val :: "nat \<Rightarrow> string \<Rightarrow> nat option" where
  "digits_val acc [] = Some acc"
| "digits_val acc (c # cs) =
     (case digit_val c of None \<Rightarrow> None | Some d \<Rightarrow> digits_val (10 * acc + d) cs)"

definition field :: "string \<Rightarrow> nat \<Rightarrow> nat \<Rightarrow> nat option" where
  "field s i n = digits_val 0 (take n (drop i s))"

definition fromisoformat_seconds :: "string \<Rightarrow> error + datetime" where
  "fromisoformat_seconds s =
     (if length s = 19 \<and> s ! 4 = CHR ''-'' \<and> s ! 7 = CHR ''-'' \<and>
         s ! 13 = CHR '':'' \<and> s ! 16 = CHR '':'' then
        (case (field s 0 4, field s 5 2, field s 8 2, field s 11 2, field s 14 2, field s 17 2) of
           (Some y, Some m, Some d, Some h, Some mi, Some se) \<Rightarrow>
             (if 1 \<le> y \<and> 1 \<le> m \<and> m \<le> 12 \<and> 1 \<le> d \<and> d \<le> days_in_month y m \<and>
                 h < 24 \<and> mi < 60 \<and> se < 60
              then Inr \<lparr>year = y, month = m, day = d, hour = h, minute = mi, second = se,
                        microsecond = 0, tzinfo = None\<rparr>
              else Inl ValueError)
         | _ \<Rightarrow> Inl ValueError)
      else Inl ValueError)"

subsection \<open>Delta fetcher: the query of lines 83-106\<close>

text \<open>
  The two tables the query reads. A column that may be NULL holds an option; \<open>'t\<close> is
  the store's timestamp type, \<open>'v\<close> the type of the columns the query only carries
  along. \<open>j_roleId\<close> is the value of \<^verbatim>\<open>j."roleId"::bigint\<close>.
\<close>

record ('t, 'v) karmafy_job =
  j_id :: int
  j_roleId :: "int option"
  j_source :: "'v option"
  j_title :: "'v option"
  j_company :: "'v option"
  j_location :: "'v option"
  j_url :: "'v option"
  j_description :: "'v option"
  j_rawText :: "'v option"
  j_datePosted :: "'v option"
  j_hoursBackPosted :: "'v option"
  j_yearsExpRequired :: "'v option"
  j_uploadDate :: "'t option"
  j_ingestedAt :: "'v option"

record 'v karmafy_jobrole =
  jr_id :: int
  jr_name :: "'v option"

text \<open>A row of the result: the aliases of the SELECT list.\<close>

record ('t, 'v) source_record =
  job_id :: int
  job_role_id :: "int option"
  job_role_name :: "'v option"
  source :: "'v option"
  title :: "'v option"
  company :: "'v option"
  location :: "'v option"
  url :: "'v option"
  description :: "'v option"
  raw_text :: "'v option"
  date_posted :: "'v option"
  hours_back_posted :: "'v option"
  years_exp_required :: "'v option"
  upload_date :: "'t option"
  ingested_at :: "'v option"

text \<open>
  \<^verbatim>\<open>FROM "karmafy_job" j LEFT JOIN "karmafy_jobrole" jr ON j."roleId"::bigint = jr.id\<close>:
  a posting is paired with every role of that id, and with no role (NULLs) when there
  is none.
\<close>

definition left_join ::
  "'v karmafy_jobrole list \<Rightarrow> ('t, 'v) karmafy_job \<Rightarrow>
   (('t, 'v) karmafy_job \<times> 'v karmafy_jobrole option) list" where
  "left_join roles j =
     (case filter (\<lambda>jr. j_roleId j = Some (jr_id jr)) roles of
        [] \<Rightarrow> [(j, None)]
      | ms \<Rightarrow> map (\<lambda>jr. (j, Some jr)) ms)"

text \<open>
  \<^verbatim>\<open>WHERE j."uploadDate" > low AND j."uploadDate" <= CURRENT_TIMESTAMP\<close>: a NULL
  uploadDate satisfies neither comparison. \<open>now_exec\<close> is CURRENT\_TIMESTAMP, the
  server's clock when the query runs.
\<close>

definition in_window :: "'t::linorder \<Rightarrow> 't \<Rightarrow> ('t, 'v) karmafy_job \<Rightarrow> bool" where
  "in_window low now_exec j =
     (case j_uploadDate j of None \<Rightarrow> False | Some u \<Rightarrow> low < u \<and> u \<le> now_exec)"

definition select_list ::
  "('t, 'v) karmafy_job \<times> 'v karmafy_jobrole option \<Rightarrow> ('t, 'v) source_record" where
  "select_list p =
     (case p of (j, jr) \<Rightarrow>
        \<lparr>job_id = j_id j,
         job_role_id = map_option jr_id jr,
         job_role_name = (case jr of None \<Rightarrow> None | Some r \<Rightarrow> jr_name r),
         source = j_source j, title = j_title j, company = j_company j,
         location = j_location j, url = j_url j, description = j_description j,
         raw_text = j_rawText j, date_posted = j_datePosted j,
         hours_back_posted = j_hoursBackPosted j,
         years_exp_required = j_yearsExpRequired j,
         upload_date = j_uploadDate j, ingested_at = j_ingestedAt j\<rparr>)"

text \<open>
  \<^verbatim>\<open>ORDER BY j."uploadDate" DESC\<close>: later first, NULLs before everything. Rows of
  equal uploadDate stay in the order of the scan.
\<close>

definition comes_before ::
  "('t::linorder, 'v) source_record \<Rightarrow> ('t, 'v) source_record \<Rightarrow> bool" where
  "comes_before r s =
     (case upload_date r of
        None \<Rightarrow> True
      | Some a \<Rightarrow> (case upload_date s of None \<Rightarrow> False | Some b \<Rightarrow> b \<le> a))"

fun insert_desc ::
  "('t::linorder, 'v) source_record \<Rightarrow> ('t, 'v) source_record list \<Rightarrow>
   ('t, 'v) source_record list" where
  "insert_desc r [] = [r]"
| "insert_desc r (s # ss) = (if comes_before r s then r # s # ss else s # insert_desc r ss)"

fun order_by_desc :: "('t::linorder, 'v) source_record list \<Rightarrow> ('t, 'v) source_record list" where
  "order_by_desc [] = []"
| "order_by_desc (r # rs) = insert_desc r (order_by_desc rs)"

definition sql_query ::
  "'t::linorder \<Rightarrow> 't \<Rightarrow> ('t, 'v) karmafy_job list \<Rightarrow> 'v karmafy_jobrole list \<Rightarrow>
   ('t, 'v) source_record list" where
  "sql_query low now_exec jobs roles =
     order_by_desc
       (map select_list
          (filter (\<lambda>p. in_window low now_exec (fst p)) (concat (map (left_join roles) jobs))))"

text \<open>
  The fetch of lines 108-120 on the source store: \<open>db\<close> is the store (its two tables)
  or the error the executor raises; \<open>lit\<close> is the server's reading of the timestamp
  literal that line 103 writes into the query. The second bound, \<^verbatim>\<open>end_date_str\<close>,
  is printed (line 110) and appears nowhere in the query.
\<close>

definition delta_fetch ::
  "(string \<Rightarrow> 't::linorder) \<Rightarrow> 't \<Rightarrow>
   error + ('t, 'v) karmafy_job list \<times> 'v karmafy_jobrole list \<Rightarrow>
   string \<times> string \<Rightarrow> error + ('t, 'v) source_record list" where
  "delta_fetch lit now_exec db bounds =
     (case bounds of (max_upload_date_str, end_date_str) \<Rightarrow>
        (case db of
           Inl e \<Rightarrow> Inl e
         | Inr (jobs, roles) \<Rightarrow> Inr (sql_query (lit max_upload_date_str) now_exec jobs roles)))"

subsection \<open>Record normalizer (lines 135-156)\<close>

text \<open>
  The values of a DataFrame cell. \<^verbatim>\<open>pd.notna\<close> is False exactly on the three
  missing values (None, NaN and NaT) and True on every other scalar, so each
  \<^verbatim>\<open>f(x) if pd.notna(x) else d\<close> of the source is a case distinction on \<open>Missing\<close>.
  The scalars: an integer, a finite float (the rational it denotes), an infinite float,
  a string and a timestamp.
\<close>

datatype missing = PyNone | NaN | NaT

datatype scalar = IntV int | FloatV rat | InfV | StrV string | TsV datetime

datatype pyval = Missing missing | Present scalar

type_synonym pydict = "(string \<times> pyval) list"

definition notna :: "pyval \<Rightarrow> bool" where
  "notna v = (case v of Missing _ \<Rightarrow> False | Present _ \<Rightarrow> True)"

text \<open>\<^verbatim>\<open>row.get(key)\<close>: the cell, or None when the row has no such column.\<close>

definition row_get :: "pydict \<Rightarrow> string \<Rightarrow> pyval" where
  "row_get row key = (case map_of row key of None \<Rightarrow> Missing PyNone | Some v \<Rightarrow> v)"

text \<open>
  \<^verbatim>\<open>int(x)\<close> on a scalar: a float is truncated towards zero, an infinite float raises
  OverflowError, a timestamp raises TypeError; a string goes to the library's parser
  \<open>int_of_str\<close>, which raises ValueError on a text that is not a number.
\<close>

definition py_int :: "(string \<Rightarrow> error + int) \<Rightarrow> scalar \<Rightarrow> error + int" where
  "py_int int_of_str x =
     (case x of
        IntV i \<Rightarrow> Inr i
      | FloatV q \<Rightarrow> Inr (if 0 \<le> q then \<lfloor>q\<rfloor> else \<lceil>q\<rceil>)
      | InfV \<Rightarrow> Inl OverflowError
      | StrV s \<Rightarrow> int_of_str s
      | TsV _ \<Rightarrow> Inl TypeError)"

text \<open>\<^verbatim>\<open>x.isoformat()\<close>: only a timestamp has the method.\<close>

definition py_isoformat :: "scalar \<Rightarrow> error + string" where
  "py_isoformat x = (case x of TsV dt \<Rightarrow> Inr (isoformat dt) | _ \<Rightarrow> Inl AttributeError)"

text \<open>The four shapes of entry in the dictionary of lines 137-154.\<close>

definition int_or :: "(string \<Rightarrow> error + int) \<Rightarrow> pyval \<Rightarrow> pyval \<Rightarrow> error + pyval" where
  "int_or int_of_str d v =
     (case v of
        Missing _ \<Rightarrow> Inr d
      | Present x \<Rightarrow>
          (case py_int int_of_str x of Inl e \<Rightarrow> Inl e | Inr i \<Rightarrow> Inr (Present (IntV i))))"

definition value_or :: "pyval \<Rightarrow> pyval \<Rightarrow> error + pyval" where
  "value_or d v = (case v of Missing _ \<Rightarrow> Inr d | Present _ \<Rightarrow> Inr v)"

definition isoformat_or_none :: "pyval \<Rightarrow> error + pyval" where
  "isoformat_or_none v =
     (case v of
        Missing _ \<Rightarrow> Inr (Missing PyNone)
      | Present x \<Rightarrow>
          (case py_isoformat x of Inl e \<Rightarrow> Inl e | Inr s \<Rightarrow> Inr (Present (StrV s))))"

text \<open>
  A dictionary display evaluates its entries in order; the first one that raises ends
  the evaluation.
\<close>

fun build_dict :: "(string \<times> (error + pyval)) list \<Rightarrow> error + pydict" where
  "build_dict [] = Inr []"
| "build_dict ((key, entry) # rest) =
     (case entry of
        Inl e \<Rightarrow> Inl e
      | Inr v \<Rightarrow> (case build_dict rest of Inl e \<Rightarrow> Inl e | Inr d \<Rightarrow> Inr ((key, v) # d)))"

definition job_data_entries ::
  "(string \<Rightarrow> error + int) \<Rightarrow> pydict \<Rightarrow> (string \<times> (error + pyval)) list" where
  "job_data_entries int_of_str row =
     [(''job_id'', int_or int_of_str (Missing PyNone) (row_get row ''job_id'')),
      (''job_role_id'', int_or int_of_str (Missing PyNone) (row_get row ''job_role_id'')),
      (''job_role_name'', value_or (Missing PyNone) (row_get row ''job_role_name'')),
      (''source'', value_or (Present (StrV [])) (row_get row ''source'')),
      (''title'', value_or (Present (StrV [])) (row_get row ''title'')),
      (''company'', value_or (Present (StrV [])) (row_get row ''company'')),
      (''location'', value_or (Present (StrV [])) (row_get row ''location'')),
      (''url'', value_or (Present (StrV [])) (row_get row ''url'')),
      (''description'', value_or (Present (StrV [])) (row_get row ''description'')),
      (''raw_text'', value_or (Present (StrV [])) (row_get row ''raw_text'')),
      (''date_posted'', isoformat_or_none (row_get row ''date_posted'')),
      (''hours_back_posted'',
         int_or int_of_str (Present (IntV 0)) (row_get row ''hours_back_posted'')),
      (''years_exp_required'', value_or (Missing PyNone) (row_get row ''years_exp_required'')),
      (''upload_date'', isoformat_or_none (row_get row ''upload_date'')),
      (''ingested_at'', isoformat_or_none (row_get row ''ingested_at'')),
      (''country'', Inr (Present (StrV ''United States of America'')))]"

definition job_data :: "(string \<Rightarrow> error + int) \<Rightarrow> pydict \<Rightarrow> error + pydict" where
  "job_data int_of_str row = build_dict (job_data_entries int_of_str row)"

text \<open>
  The loop over \<^verbatim>\<open>df.iterrows()\<close>: \<^verbatim>\<open>jobs_data\<close>, or the first exception, which
  nothing catches.
\<close>

fun prepare :: "(string \<Rightarrow> error + int) \<Rightarrow> pydict list \<Rightarrow> error + pydict list" where
  "prepare int_of_str [] = Inr []"
| "prepare int_of_str (row # df) =
     (case job_data int_of_str row of
        Inl e \<Rightarrow> Inl e
      | Inr jd \<Rightarrow>
          (case prepare int_of_str df of Inl e \<Rightarrow> Inl e | Inr jds \<Rightarrow> Inr (jd # jds)))"

text \<open>Lines 175-178: every value on which \<^verbatim>\<open>pd.isna\<close> holds becomes None.\<close>

definition replace_nan :: "pydict \<Rightarrow> pydict" where
  "replace_nan d = map (\<lambda>(key, v). (key, if notna v then v else Missing PyNone)) d"

subsection \<open>Batch writer (lines 180-201)\<close>

definition batch_size :: nat where
  "batch_size = 1000"

text \<open>\<^verbatim>\<open>xs[i:j]\<close> for \<open>0 \<le> i \<le> j\<close>: the slice stops at the end of the list.\<close>

definition slice :: "'a list \<Rightarrow> nat \<Rightarrow> nat \<Rightarrow> 'a list" where
  "slice xs i j = take (j - i) (drop i xs)"

text \<open>\<^verbatim>\<open>range(i, n, b)\<close> for a step \<open>b > 0\<close>; Python refuses a step of zero.\<close>

function range_step :: "nat \<Rightarrow> nat \<Rightarrow> nat \<Rightarrow> nat list" where
  "range_step i n b = (if 0 < b \<and> i < n then i # range_step (i + b) n b else [])"
  by pat_completeness auto
termination
  by (relation "measure (\<lambda>(i, n, b). n - i)") auto

text \<open>The slices the loop of line 191 takes, in the order it takes them.\<close>

definition batches :: "nat \<Rightarrow> 'a list \<Rightarrow> 'a list list" where
  "batches b xs = map (\<lambda>i. slice xs i (i + b)) (range_step 0 (length xs) b)"

text \<open>
  The counters of lines 183-184, and \<open>attempted\<close>, the batches handed to
  \<^verbatim>\<open>insert(batch).execute()\<close> so far, oldest first.
\<close>

record counters =
  total_inserted :: nat
  total_errors :: nat
  attempted :: "pydict list list"

text \<open>
  One turn of the loop (lines 192-201). \<open>execute k batch\<close> is the destination's answer
  to the \<open>k\<close>-th turn's insert: an exception, or \<^verbatim>\<open>response.data\<close>, the rows it
  confirms (an empty or absent \<^verbatim>\<open>response.data\<close> counts as zero rows).
\<close>

definition write_batch ::
  "(nat \<Rightarrow> pydict list \<Rightarrow> error + pydict list) \<Rightarrow> nat \<Rightarrow> pydict list \<Rightarrow> counters \<Rightarrow> counters" where
  "write_batch execute k batch st =
     (if batch \<noteq> [] then
        (case execute k batch of
           Inr data \<Rightarrow>
             st\<lparr>total_inserted := total_inserted st + (if data \<noteq> [] then length data else 0),
                attempted := attempted st @ [batch]\<rparr>
         | Inl batch_error \<Rightarrow>
             st\<lparr>total_errors := total_errors st + length batch,
                attempted := attempted st @ [batch]\<rparr>)
      else st)"

fun write_batches ::
  "(nat \<Rightarrow> pydict list \<Rightarrow> error + pydict list) \<Rightarrow> nat \<Rightarrow> pydict list list \<Rightarrow> counters \<Rightarrow> counters" where
  "write_batches execute k [] st = st"
| "write_batches execute k (batch # rest) st =
     write_batches execute (k + 1) rest (write_batch execute k batch st)"

definition write_all ::
  "(nat \<Rightarrow> pydict list \<Rightarrow> error + pydict list) \<Rightarrow> pydict list \<Rightarrow> counters" where
  "write_all execute jobs_data =
     write_batches execute 0 (batches batch_size jobs_data)
       \<lparr>total_inserted = 0, total_errors = 0, attempted = []\<rparr>"

subsection \<open>Sync report and the whole run\<close>

text \<open>\<^verbatim>\<open>a / b\<close> on two counts: the exact quotient, or ZeroDivisionError.\<close>

definition py_truediv :: "nat \<Rightarrow> nat \<Rightarrow> error + rat" where
  "py_truediv a b = (if b = 0 then Inl ZeroDivisionError else Inr (of_nat a / of_nat b))"

text \<open>
  How a run ends: at the \<^verbatim>\<open>exit()\<close> of line 120 or of line 124, with an exception
  of the normalizer that nothing catches, in the \<^verbatim>\<open>except\<close> branch of line 212, at
  the report of lines 203-210, or in the \<^verbatim>\<open>else\<close> branch of line 218.
\<close>

datatype outcome =
    FetchFailed error
  | NoNewJobs
  | Uncaught error
  | InsertFailed error
  | SyncComplete
  | NoJobsPrepared

record report = counters +
  outcome :: outcome
  prepared :: "pydict list"
  success_rate :: "rat option"

definition stopped :: "outcome \<Rightarrow> report" where
  "stopped oc =
     \<lparr>total_inserted = 0, total_errors = 0, attempted = [],
      outcome = oc, prepared = [], success_rate = None\<rparr>"

text \<open>Lines 168-219, from the prepared list on.\<close>

definition insert_phase ::
  "(nat \<Rightarrow> pydict list \<Rightarrow> error + pydict list) \<Rightarrow> pydict list \<Rightarrow> report" where
  "insert_phase execute jobs_data =
     (if length jobs_data > 0 then
        (let records = map replace_nan jobs_data;
             st = write_all execute records
         in (case py_truediv (total_inserted st) (length records) of
               Inl e \<Rightarrow>
                 \<lparr>total_inserted = total_inserted st, total_errors = total_errors st,
                  attempted = attempted st,
                  outcome = InsertFailed e, prepared = records, success_rate = None\<rparr>
             | Inr q \<Rightarrow>
                 \<lparr>total_inserted = total_inserted st, total_errors = total_errors st,
                  attempted = attempted st,
                  outcome = SyncComplete, prepared = records, success_rate = Some (q * 100)\<rparr>))
      else (stopped NoJobsPrepared))"

text \<open>
  The collaborators of one run: the library parsers, the clock, the destination's
  answer to the watermark query, the source store with the server's clock and its
  reading of a timestamp literal, pandas' conversion of a result row into a DataFrame
  row, and the destination's answers to the inserts.
\<close>

record ('t, 'v) collaborators =
  datetime_fromisoformat :: "string \<Rightarrow> error + datetime"
  builtin_int :: "string \<Rightarrow> error + int"
  datetime_now :: datetime
  max_upload_response :: "error + dest_row list"
  timestamp_literal :: "string \<Rightarrow> 't"
  current_timestamp :: 't
  source_store :: "error + ('t, 'v) karmafy_job list \<times> 'v karmafy_jobrole list"
  to_frame :: "('t, 'v) source_record \<Rightarrow> pydict"
  execute_insert :: "nat \<Rightarrow> pydict list \<Rightarrow> error + pydict list"

text \<open>The script from line 37 on.\<close>

definition sync_run :: "('t::linorder, 'v) collaborators \<Rightarrow> report" where
  "sync_run c =
     (let bounds =
            resolve_watermark (datetime_fromisoformat c) (datetime_now c) (max_upload_response c)
      in (case delta_fetch (timestamp_literal c) (current_timestamp c) (source_store c) bounds of
            Inl e \<Rightarrow> stopped (FetchFailed e)
          | Inr rows \<Rightarrow>
              (let df = map (to_frame c) rows
               in if length df = 0 then stopped NoNewJobs
                  else (case prepare (builtin_int c) df of
                          Inl e \<Rightarrow> stopped (Uncaught e)
                        | Inr jobs_data \<Rightarrow> insert_phase (execute_insert c) jobs_data))))"

subsection \<open>The SourceRecord of the data model\<close>

text \<open>
  The data model types the columns: \<^verbatim>\<open>job_id\<close>, \<^verbatim>\<open>job_role_id\<close> and
  \<^verbatim>\<open>hours_back_posted\<close> are integers (pandas holds a nullable integer column as
  floats), the three temporal columns are timestamps, and every column may be missing.
  The other columns are not constrained.
\<close>

definition integer_cell :: "pyval \<Rightarrow> bool" where
  "integer_cell v =
     (case v of
        Missing _ \<Rightarrow> True
      | Present x \<Rightarrow> (case x of IntV _ \<Rightarrow> True | FloatV _ \<Rightarrow> True | _ \<Rightarrow> False))"

definition timestamp_cell :: "pyval \<Rightarrow> bool" where
  "timestamp_cell v =
     (case v of
        Missing _ \<Rightarrow> True
      | Present x \<Rightarrow> (case x of TsV _ \<Rightarrow> True | _ \<Rightarrow> False))"

definition is_source_record :: "pydict \<Rightarrow> bool" where
  "is_source_record row =
     (integer_cell (row_get row ''job_id'') \<and>
      integer_cell (row_get row ''job_role_id'') \<and>
      integer_cell (row_get row ''hours_back_posted'') \<and>
      timestamp_cell (row_get row ''date_posted'') \<and>
      timestamp_cell (row_get row ''upload_date'') \<and>
      timestamp_cell (row_get row ''ingested_at''))"

subsection \<open>The null-handling policy of the specification\<close>

text \<open>
  The table of the specification, one predicate per field category, each relating the
  cell \<open>v\<close> of the source row to the value \<open>out\<close> of the target record.

  Identifiers: converted to an integer if present, otherwise explicit absence.
\<close>

definition identifier_policy :: "(string \<Rightarrow> error + int) \<Rightarrow> pyval \<Rightarrow> pyval \<Rightarrow> bool" where
  "identifier_policy int_of_str v out =
     (if notna v
      then (case v of
              Present x \<Rightarrow>
                (case py_int int_of_str x of Inr i \<Rightarrow> out = Present (IntV i) | Inl _ \<Rightarrow> False)
            | Missing _ \<Rightarrow> False)
      else out = Missing PyNone)"

text \<open>Numeric counters: the integer if present, zero if absent.\<close>

definition counter_policy :: "(string \<Rightarrow> error + int) \<Rightarrow> pyval \<Rightarrow> pyval \<Rightarrow> bool" where
  "counter_policy int_of_str v out =
     (if notna v
      then (case v of
              Present x \<Rightarrow>
                (case py_int int_of_str x of Inr i \<Rightarrow> out = Present (IntV i) | Inl _ \<Rightarrow> False)
            | Missing _ \<Rightarrow> False)
      else out = Present (IntV 0))"

text \<open>Short text: the value if present, the empty string if absent.\<close>

definition short_text_policy :: "pyval \<Rightarrow> pyval \<Rightarrow> bool" where
  "short_text_policy v out = (if notna v then out = v else out = Present (StrV []))"

text \<open>
  \<^verbatim>\<open>job_role_name\<close> and \<^verbatim>\<open>years_exp_required\<close>: the value untouched if present,
  explicit absence if absent.
\<close>

definition passthrough_policy :: "pyval \<Rightarrow> pyval \<Rightarrow> bool" where
  "passthrough_policy v out = (if notna v then out = v else out = Missing PyNone)"

text \<open>Timestamps: the canonical text if present, explicit absence otherwise.\<close>

definition timestamp_policy :: "pyval \<Rightarrow> pyval \<Rightarrow> bool" where
  "timestamp_policy v out =
     (if notna v
      then (case v of
              Present x \<Rightarrow>
                (case x of TsV dt \<Rightarrow> out = Present (StrV (isoformat dt)) | _ \<Rightarrow> False)
            | Missing _ \<Rightarrow> False)
      else out = Missing PyNone)"

text \<open>The target record of a row in which every field is absent.\<close>

definition defaults_record :: pydict where
  "defaults_record =
     [(''job_id'', Missing PyNone), (''job_role_id'', Missing PyNone),
      (''job_role_name'', Missing PyNone), (''source'', Present (StrV [])),
      (''title'', Present (StrV [])), (''company'', Present (StrV [])),
      (''location'', Present (StrV [])), (''url'', Present (StrV [])),
      (''description'', Present (StrV [])), (''raw_text'', Present (StrV [])),
      (''date_posted'', Missing PyNone), (''hours_back_posted'', Present (IntV 0)),
      (''years_exp_required'', Missing PyNone), (''upload_date'', Missing PyNone),
      (''ingested_at'', Missing PyNone),
      (''country'', Present (StrV ''United States of America''))]"

subsection \<open>Fixed-size chunks\<close>

text \<open>The partition of a list into runs of \<open>b\<close> elements, the last one shorter.\<close>

function chunks :: "nat \<Rightarrow> 'a list \<Rightarrow> 'a list list" where
  "chunks b xs = (if b = 0 \<or> xs = [] then [] else take b xs # chunks b (drop b xs))"
  by pat_completeness auto
termination
  by (relation "measure (\<lambda>(b, xs). length xs)") auto

subsection \<open>Example data\<close>

definition example_now :: datetime where
  "example_now =
     \<lparr>year = 2026, month = 11, day = 4, hour = 9, minute = 30, second = 15,
      microsecond = 0, tzinfo = None\<rparr>"

definition new_year_2024 :: datetime where
  "new_year_2024 =
     \<lparr>year = 2024, month = 1, day = 1, hour = 0, minute = 0, second = 0,
      microsecond = 0, tzinfo = None\<rparr>"

text \<open>
  A store whose timestamps are the numbers \<^verbatim>\<open>YYYYMMDDhhmmss\<close>: \<open>stamp\<close> reads a
  timestamp literal as the number its digits spell.
\<close>

definition stamp :: "string \<Rightarrow> nat" where
  "stamp s =
     (case digits_val 0 (filter (\<lambda>c. digit_val c \<noteq> None) s) of None \<Rightarrow> 0 | Some n \<Rightarrow> n)"

definition posting :: "int \<Rightarrow> nat \<Rightarrow> (nat, string) karmafy_job" where
  "posting i u =
     \<lparr>j_id = i, j_roleId = None, j_source = None, j_title = None, j_company = None,
      j_location = None, j_url = None, j_description = None, j_rawText = None,
      j_datePosted = None, j_hoursBackPosted = None, j_yearsExpRequired = None,
      j_uploadDate = Some u, j_ingestedAt = None\<rparr>"

definition fetched :: "int \<Rightarrow> nat \<Rightarrow> (nat, string) source_record" where
  "fetched i u = select_list (posting i u, None)"

text \<open>
  A row whose join found no role, with no \<^verbatim>\<open>years_exp_required\<close> and no
  \<^verbatim>\<open>hours_back_posted\<close>; and the row in which every column is missing.
\<close>

definition unmatched_row :: pydict where
  "unmatched_row =
     [(''job_id'', Present (IntV 7)),
      (''job_role_id'', Missing NaN),
      (''job_role_name'', Missing PyNone),
      (''source'', Present (StrV ''linkedin'')),
      (''title'', Present (StrV ''Data Engineer'')),
      (''company'', Missing PyNone),
      (''location'', Missing PyNone),
      (''url'', Present (StrV ''https://example.org/7'')),
      (''description'', Missing PyNone),
      (''raw_text'', Missing PyNone),
      (''date_posted'', Missing NaT),
      (''hours_back_posted'', Missing NaN),
      (''years_exp_required'', Missing PyNone),
      (''upload_date'', Present (TsV new_year_2024)),
      (''ingested_at'', Missing NaT)]"

definition absent_row :: pydict where
  "absent_row =
     [(''job_id'', Missing NaN), (''job_role_id'', Missing NaN),
      (''job_role_name'', Missing PyNone), (''source'', Missing PyNone),
      (''title'', Missing PyNone), (''company'', Missing PyNone),
      (''location'', Missing PyNone), (''url'', Missing PyNone),
      (''description'', Missing PyNone), (''raw_text'', Missing PyNone),
      (''date_posted'', Missing NaT), (''hours_back_posted'', Missing NaN),
      (''years_exp_required'', Missing PyNone), (''upload_date'', Missing NaT),
      (''ingested_at'', Missing NaT)]"

text \<open>The target record of \<open>unmatched_row\<close>.\<close>

definition normalized_unmatched :: pydict where
  "normalized_unmatched =
     [(''job_id'', Present (IntV 7)),
      (''job_role_id'', Missing PyNone),
      (''job_role_name'', Missing PyNone),
      (''source'', Present (StrV ''linkedin'')),
      (''title'', Present (StrV ''Data Engineer'')),
      (''company'', Present (StrV [])),
      (''location'', Present (StrV [])),
      (''url'', Present (StrV ''https://example.org/7'')),
      (''description'', Present (StrV [])),
      (''raw_text'', Present (StrV [])),
      (''date_posted'', Missing PyNone),
      (''hours_back_posted'', Present (IntV 0)),
      (''years_exp_required'', Missing PyNone),
      (''upload_date'', Present (StrV ''2024-01-01T00:00:00'')),
      (''ingested_at'', Missing PyNone),
      (''country'', Present (StrV ''United States of America''))]"

text \<open>
  Destinations: one that raises on the \<open>k\<close>-th insert and confirms every other batch
  whole, and one that never raises and leaves the first row of every batch out of
  its answer.
\<close>

definition raises_at :: "nat \<Rightarrow> nat \<Rightarrow> pydict list \<Rightarrow> error + pydict list" where
  "raises_at k i batch = (if i = k then Inl (ExternalError ''timeout'') else Inr batch)"

definition drops_first :: "nat \<Rightarrow> pydict list \<Rightarrow> error + pydict list" where
  "drops_first i batch = Inr (tl batch)"

text \<open>\<^verbatim>\<open>int(s)\<close> on a string of decimal digits; ValueError on any other text.\<close>

definition int_of_digits :: "string \<Rightarrow> error + int" where
  "int_of_digits s =
     (if s = [] then Inl ValueError
      else (case digits_val 0 s of None \<Rightarrow> Inl ValueError | Some n \<Rightarrow> Inr (int n)))"

section \<open>Properties\<close>

subsection \<open>The query\<close>

lemma set_insert_desc: "set (insert_desc r rs) = insert r (set rs)"
  by (induction rs) auto

lemma set_order_by_desc: "set (order_by_desc rs) = set rs"
  by (induction rs) (auto simp: set_insert_desc)

lemma mset_insert_desc: "mset (insert_desc r rs) = add_mset r (mset rs)"
  by (induction rs) auto

lemma mset_order_by_desc: "mset (order_by_desc rs) = mset rs"
  by (induction rs) (auto simp: mset_insert_desc)

lemma comes_before_total: "comes_before r s \<or> comes_before s r"
  by (auto simp: comes_before_def split: option.splits)

lemma comes_before_trans: "comes_before r s \<Longrightarrow> comes_before s t \<Longrightarrow> comes_before r t"
  by (auto simp: comes_before_def split: option.splits)

lemma sorted_insert_desc:
  "sorted_wrt comes_before rs \<Longrightarrow> sorted_wrt comes_before (insert_desc r rs)"
proof (induction rs)
  case Nil
  then show ?case by simp
next
  case (Cons s ss)
  show ?case
  proof (cases "comes_before r s")
    case True
    with Cons.prems show ?thesis
      by (auto intro: comes_before_trans)
  next
    case False
    then have "comes_before s r" using comes_before_total by blast
    with False Cons show ?thesis
      by (auto simp: set_insert_desc)
  qed
qed

lemma sorted_order_by_desc: "sorted_wrt comes_before (order_by_desc rs)"
  by (induction rs) (auto simp: sorted_insert_desc)

lemma fst_left_join: "p \<in> set (left_join roles j) \<Longrightarrow> fst p = j"
  by (auto simp: left_join_def split: list.splits)

lemma in_window_iff:
  "in_window low now_exec j \<longleftrightarrow> (\<exists>u. j_uploadDate j = Some u \<and> low < u \<and> u \<le> now_exec)"
  by (simp add: in_window_def split: option.splits)

lemma set_sql_query:
  "set (sql_query low now_exec jobs roles) =
   select_list ` {p. \<exists>j \<in> set jobs. p \<in> set (left_join roles j) \<and>
      (\<exists>u. j_uploadDate j = Some u \<and> low < u \<and> u \<le> now_exec)}"
proof -
  have "{p \<in> set (concat (map (left_join roles) jobs)). in_window low now_exec (fst p)} =
        {p. \<exists>j \<in> set jobs. p \<in> set (left_join roles j) \<and>
           (\<exists>u. j_uploadDate j = Some u \<and> low < u \<and> u \<le> now_exec)}"
    using fst_left_join[of _ roles] by (fastforce simp: in_window_iff)
  then show ?thesis
    by (simp add: sql_query_def set_order_by_desc)
qed

lemma upload_date_select_list: "upload_date (select_list p) = j_uploadDate (fst p)"
  by (cases p) (simp add: select_list_def)

lemma sql_query_in_window:
  assumes "r \<in> set (sql_query low now_exec jobs roles)"
  shows "\<exists>u. upload_date r = Some u \<and> low < u \<and> u \<le> now_exec"
proof -
  from assms obtain p j where "r = select_list p" "p \<in> set (left_join roles j)"
    "\<exists>u. j_uploadDate j = Some u \<and> low < u \<and> u \<le> now_exec"
    by (auto simp: set_sql_query)
  then show ?thesis
    using fst_left_join[of p roles j] by (simp add: upload_date_select_list)
qed

lemma filter_left_join:
  "filter (\<lambda>p. in_window low now_exec (fst p)) (concat (map (left_join roles) jobs)) =
   concat (map (left_join roles) (filter (in_window low now_exec) jobs))"
proof (induction jobs)
  case Nil
  then show ?case by simp
next
  case (Cons j jobs)
  have "filter (\<lambda>p. in_window low now_exec (fst p)) (left_join roles j) =
        (if in_window low now_exec j then left_join roles j else [])"
    by (auto simp: filter_empty_conv fst_left_join filter_id_conv)
  with Cons show ?case by simp
qed

lemma sql_query_sorted:
  "sorted_wrt (\<lambda>r s. \<exists>a b. upload_date r = Some a \<and> upload_date s = Some b \<and> b \<le> a)
     (sql_query low now_exec jobs roles)"
proof -
  have "sorted_wrt comes_before (sql_query low now_exec jobs roles)"
    by (simp add: sql_query_def sorted_order_by_desc)
  moreover have "\<And>r s. r \<in> set (sql_query low now_exec jobs roles) \<Longrightarrow>
      s \<in> set (sql_query low now_exec jobs roles) \<Longrightarrow> comes_before r s \<Longrightarrow>
      \<exists>a b. upload_date r = Some a \<and> upload_date s = Some b \<and> b \<le> a"
  proof -
    fix r s
    assume "r \<in> set (sql_query low now_exec jobs roles)"
      and "s \<in> set (sql_query low now_exec jobs roles)" and cb: "comes_before r s"
    then obtain a b where "upload_date r = Some a" "upload_date s = Some b"
      using sql_query_in_window by blast
    with cb show "\<exists>a b. upload_date r = Some a \<and> upload_date s = Some b \<and> b \<le> a"
      by (simp add: comes_before_def)
  qed
  ultimately show ?thesis
    by (rule sorted_wrt_mono_rel[rotated]) blast
qed

subsection \<open>The watermark\<close>

lemma resolve_try_found:
  assumes "map_of row ''upload_date'' = Some v"
    and "to_datetime fromiso v = Inr dt"
    and "plus_one_day dt = Inr end_dt"
  shows "resolve_try fromiso now (Inr (row # rest)) = Inr (strftime dt, strftime end_dt)"
  using assms by (simp add: resolve_try_def)

lemma resolve_try_query_error: "resolve_try fromiso now (Inl e) = Inl e"
  by (simp add: resolve_try_def)

lemma resolve_try_parse_error:
  "map_of row ''upload_date'' = Some v \<Longrightarrow> to_datetime fromiso v = Inl e \<Longrightarrow>
   resolve_try fromiso now (Inr (row # rest)) = Inl e"
  by (simp add: resolve_try_def)

lemma resolve_watermark_empty:
  "resolve_watermark fromiso now (Inr []) = (epoch_str, strftime now)"
  by (simp add: resolve_watermark_def resolve_try_def)

lemma ex_parse: "to_datetime fromisoformat_seconds (UStr ''2024-01-01T00:00:00'') = Inr new_year_2024"
  by code_simp

lemma ex_next: "plus_one_day new_year_2024 = Inr (new_year_2024\<lparr>day := 2\<rparr>)"
  by code_simp

lemma ex_fmt: "strftime new_year_2024 = ''2024-01-01 00:00:00''"
  by code_simp

lemma ex_fmt2: "strftime (new_year_2024\<lparr>day := 2\<rparr>) = ''2024-01-02 00:00:00''"
  by code_simp

lemma ex_now: "strftime example_now = ''2026-11-04 09:30:15''"
  by code_simp

lemma ex_bad_parse: "to_datetime fromisoformat_seconds (UStr ''yesterday'') = Inl ValueError"
  by code_simp

lemma ex_stamp: "stamp ''2024-01-01 00:00:00'' = 20240101000000"
  by (simp add: stamp_def digit_val_def)

lemma ex_join: "concat (map (left_join [])
   [posting 1 20240102000000, posting 2 20240103000000, posting 3 20231231000000]) =
   [(posting 1 20240102000000, None), (posting 2 20240103000000, None), (posting 3 20231231000000, None)]"
  by (simp add: left_join_def)

lemma ex_win: "in_window (20240101000000::nat) 20261104093015 (posting i u) \<longleftrightarrow> 20240101000000 < u \<and> u \<le> 20261104093015"
  by (simp add: in_window_def posting_def)

lemma ex_up: "upload_date (fetched i u) = Some u"
  by (simp add: fetched_def select_list_def posting_def)

lemma ex_query: "sql_query (20240101000000::nat) 20261104093015
            [posting 1 20240102000000, posting 2 20240103000000, posting 3 20231231000000] [] =
           [fetched 2 20240103000000, fetched 1 20240102000000]"
  unfolding sql_query_def ex_join
  by (simp add: ex_win fetched_def[symmetric] comes_before_def ex_up)

text \<open>
  Claim C1, as the code has it. When the destination's answer holds a row whose
  \<^verbatim>\<open>upload_date\<close> parses to the instant \<open>dt\<close>, and the day after \<open>dt\<close> exists, the low
  bound of the delta query (\<^verbatim>\<open>max_upload_date_str\<close>) is \<open>dt\<close> itself, written to the
  second; it is not advanced. The instant one day later is the second component,
  \<^verbatim>\<open>end_date_str\<close>, which the query does not use. The fetch on that pair runs the query
  with \<open>dt\<close> as its low bound, and its rows are exactly the joined rows of the postings
  whose uploadDate is strictly after \<open>dt\<close> and at or before the server's clock.
\<close>

theorem watermark_low_is_max_upload_date:
  assumes "response = Inr (row # rest)"
    and "map_of row ''upload_date'' = Some v"
    and "to_datetime fromiso v = Inr dt"
    and "plus_one_day dt = Inr end_dt"
  shows "resolve_watermark fromiso now response = (strftime dt, strftime end_dt) \<and>
         delta_fetch lit now_exec (Inr (jobs, roles)) (resolve_watermark fromiso now response) =
           Inr (sql_query (lit (strftime dt)) now_exec jobs roles) \<and>
         set (sql_query (lit (strftime dt)) now_exec jobs roles) =
           select_list ` {p. \<exists>j \<in> set jobs. p \<in> set (left_join roles j) \<and>
              (\<exists>u. j_uploadDate j = Some u \<and> lit (strftime dt) < u \<and> u \<le> now_exec)}"
proof -
  have b: "resolve_watermark fromiso now response = (strftime dt, strftime end_dt)"
    using assms by (simp add: resolve_watermark_def resolve_try_found)
  have f: "delta_fetch lit now_exec (Inr (jobs, roles)) (strftime dt, strftime end_dt) =
      Inr (sql_query (lit (strftime dt)) now_exec jobs roles)"
    by (simp add: delta_fetch_def)
  note s = set_sql_query[of "lit (strftime dt)" now_exec jobs roles]
  from b f s show ?thesis by simp
qed

text \<open>
  The example of the specification: the destination's maximum is
  \<^verbatim>\<open>2024-01-01T00:00:00\<close>, the source holds postings of 2 January 2024, 3 January 2024
  and 31 December 2023. The low bound is \<^verbatim>\<open>2024-01-01 00:00:00\<close> and the first two
  postings are fetched, the later one first.
\<close>

theorem watermark_low_is_max_upload_date_witness:
  "resolve_watermark fromisoformat_seconds example_now
     (Inr [[(''upload_date'', UStr ''2024-01-01T00:00:00'')]]) =
     (''2024-01-01 00:00:00'', ''2024-01-02 00:00:00'') \<and>
   delta_fetch stamp 20261104093015
     (Inr ([posting 1 20240102000000, posting 2 20240103000000, posting 3 20231231000000], []))
     (resolve_watermark fromisoformat_seconds example_now
        (Inr [[(''upload_date'', UStr ''2024-01-01T00:00:00'')]])) =
     Inr [fetched 2 20240103000000, fetched 1 20240102000000]"
proof -
  have m: "map_of [(''upload_date'', UStr ''2024-01-01T00:00:00'')] ''upload_date'' =
           Some (UStr ''2024-01-01T00:00:00'')"
    by simp
  from watermark_low_is_max_upload_date[OF refl m ex_parse ex_next,
      where rest = "[]" and now = example_now and lit = stamp and now_exec = 20261104093015
        and jobs = "[posting 1 20240102000000, posting 2 20240103000000, posting 3 20231231000000]"
        and roles = "[]"]
  show ?thesis
    by (simp add: ex_fmt ex_fmt2 ex_stamp ex_query delta_fetch_def)
qed

text \<open>
  Claim C1 as the specification states it fails: for the destination maximum
  \<^verbatim>\<open>2024-01-01T00:00:00\<close> the instant advanced by one day prints as
  \<^verbatim>\<open>2024-01-02 00:00:00\<close>, and the low bound is \<^verbatim>\<open>2024-01-01 00:00:00\<close>.
\<close>

theorem watermark_low_not_advanced:
  "to_datetime fromisoformat_seconds (UStr ''2024-01-01T00:00:00'') = Inr new_year_2024 \<and>
   plus_one_day new_year_2024 = Inr (new_year_2024\<lparr>day := 2\<rparr>) \<and>
   strftime (new_year_2024\<lparr>day := 2\<rparr>) = ''2024-01-02 00:00:00'' \<and>
   fst (resolve_watermark fromisoformat_seconds example_now
     (Inr [[(''upload_date'', UStr ''2024-01-01T00:00:00'')]])) = ''2024-01-01 00:00:00'' \<and>
   fst (resolve_watermark fromisoformat_seconds example_now
     (Inr [[(''upload_date'', UStr ''2024-01-01T00:00:00'')]])) \<noteq>
     strftime (new_year_2024\<lparr>day := 2\<rparr>)"
proof -
  have r: "resolve_watermark fromisoformat_seconds example_now
     (Inr [[(''upload_date'', UStr ''2024-01-01T00:00:00'')]]) =
     (strftime new_year_2024, strftime (new_year_2024\<lparr>day := 2\<rparr>))"
    by (simp add: resolve_watermark_def resolve_try_def ex_parse ex_next)
  show ?thesis
    by (simp add: r ex_parse ex_next ex_fmt ex_fmt2)
qed

text \<open>
  Claim C7. If resolving the watermark raises (the destination query fails, the
  timestamp does not parse, or any other step of the \<^verbatim>\<open>try\<close> raises), the resolver
  still returns bounds: the epoch sentinel \<^verbatim>\<open>1970-01-01 00:00:00\<close> as the low bound
  and the current wall-clock time as the high bound, the same pair as for an empty
  destination.
\<close>

theorem watermark_fallback:
  assumes "response = Inl e \<or>
           (\<exists>row rest v. response = Inr (row # rest) \<and> map_of row ''upload_date'' = Some v \<and>
              to_datetime fromiso v = Inl e) \<or>
           resolve_try fromiso now response = Inl e"
  shows "resolve_watermark fromiso now response = (''1970-01-01 00:00:00'', strftime now) \<and>
         resolve_watermark fromiso now response = resolve_watermark fromiso now (Inr [])"
proof -
  from assms have "resolve_try fromiso now response = Inl e"
    by (auto simp: resolve_try_query_error resolve_try_parse_error)
  then have "resolve_watermark fromiso now response = (epoch_str, strftime now)"
    by (simp add: resolve_watermark_def)
  then show ?thesis
    by (simp add: resolve_watermark_empty) (simp add: epoch_str_def)
qed

text \<open>
  The fallback on a refused connection and on a text that is no timestamp, next to
  the empty destination.
\<close>

theorem watermark_fallback_witness:
  "resolve_watermark fromisoformat_seconds example_now (Inl (ExternalError ''connection refused'')) =
     (''1970-01-01 00:00:00'', ''2026-11-04 09:30:15'') \<and>
   resolve_watermark fromisoformat_seconds example_now (Inr [[(''upload_date'', UStr ''yesterday'')]]) =
     (''1970-01-01 00:00:00'', ''2026-11-04 09:30:15'') \<and>
   resolve_watermark fromisoformat_seconds example_now (Inr []) =
     (''1970-01-01 00:00:00'', ''2026-11-04 09:30:15'')"
proof -
  have a: "resolve_watermark fromisoformat_seconds example_now
             (Inl (ExternalError ''connection refused'')) =
           (''1970-01-01 00:00:00'', strftime example_now) \<and>
           resolve_watermark fromisoformat_seconds example_now
             (Inl (ExternalError ''connection refused'')) =
           resolve_watermark fromisoformat_seconds example_now (Inr [])"
    using watermark_fallback[of "Inl (ExternalError ''connection refused'')"
        "ExternalError ''connection refused''" fromisoformat_seconds example_now]
    by metis
  have m: "map_of [(''upload_date'', UStr ''yesterday'')] ''upload_date'' = Some (UStr ''yesterday'')"
    by simp
  have b: "resolve_watermark fromisoformat_seconds example_now
             (Inr [[(''upload_date'', UStr ''yesterday'')]]) =
           (''1970-01-01 00:00:00'', strftime example_now)"
    using watermark_fallback[of "Inr [[(''upload_date'', UStr ''yesterday'')]]" ValueError
        fromisoformat_seconds example_now] m ex_bad_parse
    by blast
  from a b show ?thesis
    unfolding ex_now by metis
qed

subsection \<open>The delta fetch\<close>

lemma in_window_eq:
  "in_window low now_exec = (\<lambda>j. \<exists>u. j_uploadDate j = Some u \<and> low < u \<and> u \<le> now_exec)"
  by (rule ext) (rule in_window_iff)

text \<open>
  Claim C2. On a store that answers, the fetch returns the result of the query on the
  low bound alone, whatever the second bound \<open>high\<close> is: the joined rows of exactly the
  postings whose uploadDate is strictly greater than the low bound and at or before
  \<open>now_exec\<close>, the server's clock when the query runs; and the result is in
  descending order of upload\_date.
\<close>

theorem delta_fetch_selects_window_descending:
  "delta_fetch lit now_exec (Inr (jobs, roles)) (low, high) =
     Inr (sql_query (lit low) now_exec jobs roles) \<and>
   mset (sql_query (lit low) now_exec jobs roles) =
     mset (map select_list (concat (map (left_join roles)
       (filter (\<lambda>j. \<exists>u. j_uploadDate j = Some u \<and> lit low < u \<and> u \<le> now_exec) jobs)))) \<and>
   (\<forall>r \<in> set (sql_query (lit low) now_exec jobs roles).
      \<exists>u. upload_date r = Some u \<and> lit low < u \<and> u \<le> now_exec) \<and>
   sorted_wrt (\<lambda>r s. \<exists>a b. upload_date r = Some a \<and> upload_date s = Some b \<and> b \<le> a)
     (sql_query (lit low) now_exec jobs roles)"
proof -
  have f: "delta_fetch lit now_exec (Inr (jobs, roles)) (low, high) =
     Inr (sql_query (lit low) now_exec jobs roles)"
    by (simp add: delta_fetch_def)
  have m: "mset (sql_query (lit low) now_exec jobs roles) =
     mset (map select_list (concat (map (left_join roles)
       (filter (\<lambda>j. \<exists>u. j_uploadDate j = Some u \<and> lit low < u \<and> u \<le> now_exec) jobs))))"
  proof -
    have "mset (sql_query (lit low) now_exec jobs roles) =
      mset (map select_list (concat (map (left_join roles)
        (filter (in_window (lit low) now_exec) jobs))))"
      by (simp add: sql_query_def mset_order_by_desc filter_left_join)
    then show ?thesis
      unfolding in_window_eq .
  qed
  have w: "\<forall>r \<in> set (sql_query (lit low) now_exec jobs roles).
      \<exists>u. upload_date r = Some u \<and> lit low < u \<and> u \<le> now_exec"
    using sql_query_in_window by blast
  from f m w sql_query_sorted[of "lit low" now_exec jobs roles] show ?thesis
    by blast
qed

text \<open>
  With a second bound of 2 January 2024 and a server clock in November 2026, the
  posting of 3 January 2024 is fetched, and comes first.
\<close>

theorem delta_fetch_selects_window_descending_witness:
  "delta_fetch stamp 20261104093015
     (Inr ([posting 1 20240102000000, posting 2 20240103000000, posting 3 20231231000000], []))
     (''2024-01-01 00:00:00'', ''2024-01-02 00:00:00'') =
     Inr [fetched 2 20240103000000, fetched 1 20240102000000]"
  using delta_fetch_selects_window_descending[of stamp 20261104093015
      "[posting 1 20240102000000, posting 2 20240103000000, posting 3 20231231000000]" "[]"
      "''2024-01-01 00:00:00''" "''2024-01-02 00:00:00''"]
  by (simp add: ex_stamp ex_query)

subsection \<open>The normalizer\<close>

lemma build_dict_Cons_Inr:
  "build_dict ((key, entry) # rest) = Inr d \<longleftrightarrow>
   (\<exists>v d'. entry = Inr v \<and> build_dict rest = Inr d' \<and> d = (key, v) # d')"
  by (cases entry; cases "build_dict rest") auto

lemma build_dict_Nil_Inr: "build_dict [] = Inr d \<longleftrightarrow> d = []"
  by auto

lemma job_data_shape:
  assumes "job_data int_of_str row = Inr t"
  shows "\<exists>v1 v2 v3 v4 v5 v6 v7 v8 v9 v10 v11 v12 v13 v14 v15.
    t = [(''job_id'', v1), (''job_role_id'', v2), (''job_role_name'', v3), (''source'', v4),
         (''title'', v5), (''company'', v6), (''location'', v7), (''url'', v8),
         (''description'', v9), (''raw_text'', v10), (''date_posted'', v11),
         (''hours_back_posted'', v12), (''years_exp_required'', v13), (''upload_date'', v14),
         (''ingested_at'', v15), (''country'', Present (StrV ''United States of America''))] \<and>
    int_or int_of_str (Missing PyNone) (row_get row ''job_id'') = Inr v1 \<and>
    int_or int_of_str (Missing PyNone) (row_get row ''job_role_id'') = Inr v2 \<and>
    value_or (Missing PyNone) (row_get row ''job_role_name'') = Inr v3 \<and>
    value_or (Present (StrV [])) (row_get row ''source'') = Inr v4 \<and>
    value_or (Present (StrV [])) (row_get row ''title'') = Inr v5 \<and>
    value_or (Present (StrV [])) (row_get row ''company'') = Inr v6 \<and>
    value_or (Present (StrV [])) (row_get row ''location'') = Inr v7 \<and>
    value_or (Present (StrV [])) (row_get row ''url'') = Inr v8 \<and>
    value_or (Present (StrV [])) (row_get row ''description'') = Inr v9 \<and>
    value_or (Present (StrV [])) (row_get row ''raw_text'') = Inr v10 \<and>
    isoformat_or_none (row_get row ''date_posted'') = Inr v11 \<and>
    int_or int_of_str (Present (IntV 0)) (row_get row ''hours_back_posted'') = Inr v12 \<and>
    value_or (Missing PyNone) (row_get row ''years_exp_required'') = Inr v13 \<and>
    isoformat_or_none (row_get row ''upload_date'') = Inr v14 \<and>
    isoformat_or_none (row_get row ''ingested_at'') = Inr v15"
  using assms unfolding job_data_def job_data_entries_def build_dict_Cons_Inr build_dict_Nil_Inr
  by blast

lemma int_or_identifier:
  assumes "int_or int_of_str (Missing PyNone) v = Inr out"
  shows "identifier_policy int_of_str v out"
proof (cases v)
  case (Missing m)
  with assms show ?thesis
    by (simp add: int_or_def identifier_policy_def notna_def)
next
  case (Present x)
  with assms show ?thesis
    by (cases "py_int int_of_str x") (auto simp: int_or_def identifier_policy_def notna_def)
qed

lemma int_or_counter:
  assumes "int_or int_of_str (Present (IntV 0)) v = Inr out"
  shows "counter_policy int_of_str v out"
proof (cases v)
  case (Missing m)
  with assms show ?thesis
    by (simp add: int_or_def counter_policy_def notna_def)
next
  case (Present x)
  with assms show ?thesis
    by (cases "py_int int_of_str x") (auto simp: int_or_def counter_policy_def notna_def)
qed

lemma value_or_short_text:
  "value_or (Present (StrV [])) v = Inr out \<Longrightarrow> short_text_policy v out"
  by (cases v) (auto simp: value_or_def short_text_policy_def notna_def)

lemma value_or_passthrough:
  "value_or (Missing PyNone) v = Inr out \<Longrightarrow> passthrough_policy v out"
  by (cases v) (auto simp: value_or_def passthrough_policy_def notna_def)

lemma isoformat_or_none_timestamp:
  assumes "isoformat_or_none v = Inr out"
  shows "timestamp_policy v out"
proof (cases v)
  case (Missing m)
  with assms show ?thesis
    by (simp add: isoformat_or_none_def timestamp_policy_def notna_def)
next
  case (Present x)
  with assms show ?thesis
    by (cases x) (auto simp: isoformat_or_none_def timestamp_policy_def notna_def py_isoformat_def)
qed

text \<open>
  Claim C3. Whenever the normalizer returns a record \<open>t\<close> for a row, \<open>t\<close> has exactly the
  sixteen keys of the target schema, in the order of the source, and every value follows
  the policy of its field category: \<^verbatim>\<open>job_id\<close> and \<^verbatim>\<open>job_role_id\<close> are the integer
  of the cell when it is present and None otherwise; \<^verbatim>\<open>source\<close>, \<^verbatim>\<open>title\<close>,
  \<^verbatim>\<open>company\<close>, \<^verbatim>\<open>location\<close>, \<^verbatim>\<open>url\<close>, \<^verbatim>\<open>description\<close> and \<^verbatim>\<open>raw_text\<close> are the
  cell when present and the empty string otherwise; \<^verbatim>\<open>job_role_name\<close> and
  \<^verbatim>\<open>years_exp_required\<close> are the cell untouched when present and None otherwise;
  \<^verbatim>\<open>hours_back_posted\<close> is the integer of the cell when present and 0 otherwise; the
  three timestamps are the ISO text of the cell when present and None otherwise; and
  \<^verbatim>\<open>country\<close> is the fixed literal.
\<close>

theorem normalizer_field_policy:
  assumes "job_data int_of_str row = Inr t"
  shows "map fst t =
      [''job_id'', ''job_role_id'', ''job_role_name'', ''source'', ''title'', ''company'',
       ''location'', ''url'', ''description'', ''raw_text'', ''date_posted'',
       ''hours_back_posted'', ''years_exp_required'', ''upload_date'', ''ingested_at'',
       ''country''] \<and>
    (\<exists>out. map_of t ''job_id'' = Some out \<and>
       identifier_policy int_of_str (row_get row ''job_id'') out) \<and>
    (\<exists>out. map_of t ''job_role_id'' = Some out \<and>
       identifier_policy int_of_str (row_get row ''job_role_id'') out) \<and>
    (\<exists>out. map_of t ''job_role_name'' = Some out \<and>
       passthrough_policy (row_get row ''job_role_name'') out) \<and>
    (\<exists>out. map_of t ''source'' = Some out \<and> short_text_policy (row_get row ''source'') out) \<and>
    (\<exists>out. map_of t ''title'' = Some out \<and> short_text_policy (row_get row ''title'') out) \<and>
    (\<exists>out. map_of t ''company'' = Some out \<and> short_text_policy (row_get row ''company'') out) \<and>
    (\<exists>out. map_of t ''location'' = Some out \<and>
       short_text_policy (row_get row ''location'') out) \<and>
    (\<exists>out. map_of t ''url'' = Some out \<and> short_text_policy (row_get row ''url'') out) \<and>
    (\<exists>out. map_of t ''description'' = Some out \<and>
       short_text_policy (row_get row ''description'') out) \<and>
    (\<exists>out. map_of t ''raw_text'' = Some out \<and>
       short_text_policy (row_get row ''raw_text'') out) \<and>
    (\<exists>out. map_of t ''date_posted'' = Some out \<and>
       timestamp_policy (row_get row ''date_posted'') out) \<and>
    (\<exists>out. map_of t ''hours_back_posted'' = Some out \<and>
       counter_policy int_of_str (row_get row ''hours_back_posted'') out) \<and>
    (\<exists>out. map_of t ''years_exp_required'' = Some out \<and>
       passthrough_policy (row_get row ''years_exp_required'') out) \<and>
    (\<exists>out. map_of t ''upload_date'' = Some out \<and>
       timestamp_policy (row_get row ''upload_date'') out) \<and>
    (\<exists>out. map_of t ''ingested_at'' = Some out \<and>
       timestamp_policy (row_get row ''ingested_at'') out) \<and>
    map_of t ''country'' = Some (Present (StrV ''United States of America''))"
proof -
  from job_data_shape[OF assms] obtain v1 v2 v3 v4 v5 v6 v7 v8 v9 v10 v11 v12 v13 v14 v15 where
    t: "t = [(''job_id'', v1), (''job_role_id'', v2), (''job_role_name'', v3), (''source'', v4),
         (''title'', v5), (''company'', v6), (''location'', v7), (''url'', v8),
         (''description'', v9), (''raw_text'', v10), (''date_posted'', v11),
         (''hours_back_posted'', v12), (''years_exp_required'', v13), (''upload_date'', v14),
         (''ingested_at'', v15), (''country'', Present (StrV ''United States of America''))]"
    and f1: "int_or int_of_str (Missing PyNone) (row_get row ''job_id'') = Inr v1"
    and f2: "int_or int_of_str (Missing PyNone) (row_get row ''job_role_id'') = Inr v2"
    and f3: "value_or (Missing PyNone) (row_get row ''job_role_name'') = Inr v3"
    and f4: "value_or (Present (StrV [])) (row_get row ''source'') = Inr v4"
    and f5: "value_or (Present (StrV [])) (row_get row ''title'') = Inr v5"
    and f6: "value_or (Present (StrV [])) (row_get row ''company'') = Inr v6"
    and f7: "value_or (Present (StrV [])) (row_get row ''location'') = Inr v7"
    and f8: "value_or (Present (StrV [])) (row_get row ''url'') = Inr v8"
    and f9: "value_or (Present (StrV [])) (row_get row ''description'') = Inr v9"
    and f10: "value_or (Present (StrV [])) (row_get row ''raw_text'') = Inr v10"
    and f11: "isoformat_or_none (row_get row ''date_posted'') = Inr v11"
    and f12: "int_or int_of_str (Present (IntV 0)) (row_get row ''hours_back_posted'') = Inr v12"
    and f13: "value_or (Missing PyNone) (row_get row ''years_exp_required'') = Inr v13"
    and f14: "isoformat_or_none (row_get row ''upload_date'') = Inr v14"
    and f15: "isoformat_or_none (row_get row ''ingested_at'') = Inr v15"
    by blast
  have keys: "map fst t =
      [''job_id'', ''job_role_id'', ''job_role_name'', ''source'', ''title'', ''company'',
       ''location'', ''url'', ''description'', ''raw_text'', ''date_posted'',
       ''hours_back_posted'', ''years_exp_required'', ''upload_date'', ''ingested_at'',
       ''country'']"
    by (simp add: t)
  note p = int_or_identifier[OF f1] int_or_identifier[OF f2] value_or_passthrough[OF f3]
    value_or_short_text[OF f4] value_or_short_text[OF f5] value_or_short_text[OF f6]
    value_or_short_text[OF f7] value_or_short_text[OF f8] value_or_short_text[OF f9]
    value_or_short_text[OF f10] isoformat_or_none_timestamp[OF f11] int_or_counter[OF f12]
    value_or_passthrough[OF f13] isoformat_or_none_timestamp[OF f14]
    isoformat_or_none_timestamp[OF f15]
  have m: "map_of t ''job_id'' = Some v1" "map_of t ''job_role_id'' = Some v2"
    "map_of t ''job_role_name'' = Some v3" "map_of t ''source'' = Some v4"
    "map_of t ''title'' = Some v5" "map_of t ''company'' = Some v6"
    "map_of t ''location'' = Some v7" "map_of t ''url'' = Some v8"
    "map_of t ''description'' = Some v9" "map_of t ''raw_text'' = Some v10"
    "map_of t ''date_posted'' = Some v11" "map_of t ''hours_back_posted'' = Some v12"
    "map_of t ''years_exp_required'' = Some v13" "map_of t ''upload_date'' = Some v14"
    "map_of t ''ingested_at'' = Some v15"
    "map_of t ''country'' = Some (Present (StrV ''United States of America''))"
    by (simp_all add: t)
  show ?thesis
    unfolding keys m using p by simp
qed

lemma ex_iso: "isoformat new_year_2024 = ''2024-01-01T00:00:00''"
  by code_simp

lemma ex_job_data_unmatched: "job_data int_of_digits unmatched_row = Inr normalized_unmatched"
  by (simp add: job_data_def job_data_entries_def unmatched_row_def normalized_unmatched_def
      row_get_def int_or_def value_or_def isoformat_or_none_def py_int_def py_isoformat_def
      ex_iso)

text \<open>
  The example of the specification: the join found no role, and
  \<^verbatim>\<open>years_exp_required\<close> and \<^verbatim>\<open>hours_back_posted\<close> are absent. The record has None
  for \<^verbatim>\<open>job_role_id\<close>, \<^verbatim>\<open>job_role_name\<close> and \<^verbatim>\<open>years_exp_required\<close>, and 0 for
  \<^verbatim>\<open>hours_back_posted\<close>.
\<close>

theorem normalizer_field_policy_witness:
  "job_data int_of_digits unmatched_row = Inr normalized_unmatched \<and>
   map_of normalized_unmatched ''job_role_id'' = Some (Missing PyNone) \<and>
   identifier_policy int_of_digits (row_get unmatched_row ''job_role_id'') (Missing PyNone) \<and>
   map_of normalized_unmatched ''job_role_name'' = Some (Missing PyNone) \<and>
   passthrough_policy (row_get unmatched_row ''job_role_name'') (Missing PyNone) \<and>
   map_of normalized_unmatched ''years_exp_required'' = Some (Missing PyNone) \<and>
   passthrough_policy (row_get unmatched_row ''years_exp_required'') (Missing PyNone) \<and>
   map_of normalized_unmatched ''hours_back_posted'' = Some (Present (IntV 0)) \<and>
   counter_policy int_of_digits (row_get unmatched_row ''hours_back_posted'') (Present (IntV 0)) \<and>
   map_of normalized_unmatched ''country'' = Some (Present (StrV ''United States of America''))"
proof -
  note th = normalizer_field_policy[OF ex_job_data_unmatched]
  have m: "map_of normalized_unmatched ''job_role_id'' = Some (Missing PyNone)"
    "map_of normalized_unmatched ''job_role_name'' = Some (Missing PyNone)"
    "map_of normalized_unmatched ''years_exp_required'' = Some (Missing PyNone)"
    "map_of normalized_unmatched ''hours_back_posted'' = Some (Present (IntV 0))"
    by (simp_all add: normalized_unmatched_def)
  from th m ex_job_data_unmatched show ?thesis
    by simp
qed

end
